theory Spec2Isabelle
  imports Main
begin

section \<open>Go standard library: the part the scaffolding templates use\<close>

text \<open>
  Go strings are byte sequences; they are modelled as \<^typ>\<open>string\<close> (a list of
  8-bit characters). Raw string literals of the source are copied character for
  character, tabs and line breaks included.
\<close>

text \<open>\<^verbatim>\<open>strings.Join(elems, sep)\<close>.\<close>

fun strings_Join :: "string list \<Rightarrow> string \<Rightarrow> string" where
  "strings_Join [] sep = []"
| "strings_Join [x] sep = x"
| "strings_Join (x # y # xs) sep = x @ sep @ strings_Join (y # xs) sep"

text \<open>
  The formatter behind \<^verbatim>\<open>fmt.Sprintf\<close> and \<^verbatim>\<open>fmt.Errorf\<close>, for operands that print
  as strings. \<open>vs\<close> lists the verbs that print the next operand (the verb
  with \<^verbatim>\<open>(MISSING)\<close> when none is left); \<^verbatim>\<open>%%\<close> prints a percent sign, a trailing
  \<^verbatim>\<open>%\<close> prints \<^verbatim>\<open>%!(NOVERB)\<close>, and operands left over are reported by
  \<^verbatim>\<open>%!(EXTRA string=..., ...)\<close>. Flags, widths and the other verbs of Go are not
  modelled: \<open>fmt_verbs_in\<close> says of a format that it needs none of them, and
  every format of the program satisfies it (lemmas \<open>formats_modelled\<close> and
  \<open>mainTemplate_modelled\<close>).
\<close>

definition fmt_extra :: "string list \<Rightarrow> string" where
  "fmt_extra args =
     (if args = [] then []
      else ''%!(EXTRA '' @ strings_Join (map (\<lambda>a. ''string='' @ a) args) '', '' @ '')'')"

fun doPrintf :: "char list \<Rightarrow> string \<Rightarrow> string list \<Rightarrow> string" where
  "doPrintf vs [] args = fmt_extra args"
| "doPrintf vs [c] args =
     (if c = CHR ''%'' then ''%!(NOVERB)'' @ fmt_extra args else c # fmt_extra args)"
| "doPrintf vs (c # d # fs) args =
     (if c = CHR ''%'' then
        (if d \<in> set vs then
           (case args of
              [] \<Rightarrow> ''%!'' @ [d] @ ''(MISSING)'' @ doPrintf vs fs []
            | a # as \<Rightarrow> a @ doPrintf vs fs as)
         else if d = CHR ''%'' then CHR ''%'' # doPrintf vs fs args
         else c # d # doPrintf vs fs args)
      else c # doPrintf vs (d # fs) args)"

fun fmt_verbs_in :: "char list \<Rightarrow> string \<Rightarrow> bool" where
  "fmt_verbs_in vs [] = True"
| "fmt_verbs_in vs [c] = (c \<noteq> CHR ''%'')"
| "fmt_verbs_in vs (c # d # fs) =
     (if c = CHR ''%'' then (d \<in> set vs \<or> d = CHR ''%'') \<and> fmt_verbs_in vs fs
      else fmt_verbs_in vs (d # fs))"


text \<open>
  \<^verbatim>\<open>fmt.Sprintf\<close> on string operands: \<^verbatim>\<open>%s\<close> and \<^verbatim>\<open>%v\<close> print a string as it is.
\<close>

definition Sprintf :: "string \<Rightarrow> string list \<Rightarrow> string" where
  "Sprintf format args = doPrintf ''sv'' format args"

text \<open>\<^verbatim>\<open>fmt.Println\<close> of one string, as the text written to standard output.\<close>

definition Println :: "string \<Rightarrow> string" where
  "Println s = s @ [CHR 0x0A]"

text \<open>
  Go errors. \<^verbatim>\<open>errors.New\<close> and \<^verbatim>\<open>fmt.Errorf\<close> without \<^verbatim>\<open>%w\<close> build an
  \<^verbatim>\<open>errorString\<close>, which carries a message only; \<^verbatim>\<open>fmt.Errorf\<close> with \<^verbatim>\<open>%w\<close> builds a
  \<^verbatim>\<open>wrapError\<close>, which carries the message and the operand it wraps.
\<close>

datatype error = errorString string | wrapError string error




text \<open>
  \<^verbatim>\<open>strings.ReplaceAll(s, old, new)\<close>: the non-overlapping occurrences of \<open>old\<close>,
  found from left to right, are replaced by \<open>new\<close>. For an empty \<open>old\<close> Go inserts
  \<open>new\<close> before every character and at the end.
\<close>

function ReplaceAll :: "string \<Rightarrow> string \<Rightarrow> string \<Rightarrow> string" where
  "ReplaceAll [] old new = (if old = [] then new else [])"
| "ReplaceAll (c # s) old new =
     (if old = [] then new @ c # ReplaceAll s old new
      else if take (length old) (c # s) = old
           then new @ ReplaceAll (drop (length old) (c # s)) old new
      else c # ReplaceAll s old new)"
  by pat_completeness auto
termination
  by (relation "measure (\<lambda>(s, old, new). length s)") auto

text \<open>
  \<^verbatim>\<open>filepath.Clean\<close> on a system whose separator is \<^verbatim>\<open>/\<close>, element by element: empty
  elements and \<^verbatim>\<open>.\<close> are dropped, \<^verbatim>\<open>..\<close> removes the element before it (and is kept
  at the start of a path that is not rooted, dropped at the root), and the empty
  result is \<^verbatim>\<open>.\<close>.
\<close>

fun split_sep :: "string \<Rightarrow> string list" where
  "split_sep [] = [[]]"
| "split_sep (c # s) =
     (if c = CHR ''/'' then [] # split_sep s
      else (case split_sep s of [] \<Rightarrow> [[c]] | x # xs \<Rightarrow> (c # x) # xs))"

fun clean_elems :: "bool \<Rightarrow> string list \<Rightarrow> string list \<Rightarrow> string list" where
  "clean_elems rooted out [] = out"
| "clean_elems rooted out (e # es) =
     (if e = [] \<or> e = ''.'' then clean_elems rooted out es
      else if e = ''..'' then
        (if out \<noteq> [] \<and> last out \<noteq> ''..'' then clean_elems rooted (butlast out) es
         else if \<not> rooted then clean_elems rooted (out @ [''..'']) es
         else clean_elems rooted out es)
      else clean_elems rooted (out @ [e]) es)"

definition filepath_Clean :: "string \<Rightarrow> string" where
  "filepath_Clean path =
     (if path = [] then ''.''
      else
        (let rooted = (hd path = CHR ''/'');
             out = clean_elems rooted [] (split_sep path);
             s = (if rooted then ''/'' else []) @ strings_Join out ''/''
         in if s = [] then ''.'' else s))"

text \<open>
  \<^verbatim>\<open>filepath.Join\<close>: the elements from the first non-empty one on, joined by the
  separator and cleaned; the empty string when every element is empty.
\<close>

definition filepath_Join :: "string list \<Rightarrow> string" where
  "filepath_Join elem =
     (case dropWhile (\<lambda>e. e = []) elem of
        [] \<Rightarrow> []
      | e # es \<Rightarrow> filepath_Clean (strings_Join (e # es) ''/''))"


section \<open>The kubebuilder machinery the templates are written against\<close>

text \<open>
  Modelled from the spec: \<^verbatim>\<open>machinery.Marker\<close> and \<^verbatim>\<open>machinery.NewMarkerFor\<close> belong to
  the kubebuilder library and are not part of the sources at hand. The specification
  identifies a marker by its owning file path and its symbolic name, which is what
  the constructor records. How a marker is printed into a file (its \<^verbatim>\<open>String\<close>
  method) is left open: functions that print markers take the printer as argument.
\<close>

datatype Marker = NewMarkerFor string string

text \<open>\<^verbatim>\<open>machinery.IfExistsAction\<close>: what to do when the target file exists.\<close>

datatype IfExistsAction = SkipFile | Error | OverwriteFile

text \<open>
  \<^verbatim>\<open>machinery.TemplateMixin\<close>, the fields every template embeds: the path of the file,
  the policy when it exists, and the body.
\<close>

record TemplateMixin =
  Path :: string
  IfExistsAction :: IfExistsAction
  TemplateBody :: string

text \<open>
  Modelled from the spec: \<^verbatim>\<open>resource.Resource\<close> is the library's resource descriptor.
  \<open>ImportAlias\<close> and \<open>PackageName\<close> are the values of its methods of the same names,
  which the library derives from the other fields; \<open>Resource_Path\<close> is its field
  \<^verbatim>\<open>Path\<close>, the import path of the API package.
\<close>

record Resource =
  Group :: string
  Domain :: string
  Version :: string
  Kind :: string
  Plural :: string
  Resource_Path :: string
  ImportAlias :: string
  PackageName :: string

section \<open>templates/main.go: the injector of the entry point\<close>

definition defaultMainPath :: string where
  "defaultMainPath = ''cmd/main.go''"

definition defaultLegacyLayoutMainPath :: string where
  "defaultLegacyLayoutMainPath = ''main.go''"

text \<open>
  \<^verbatim>\<open>MainUpdater\<close> embeds \<^verbatim>\<open>RepositoryMixin\<close> (\<open>Repo\<close>), \<^verbatim>\<open>MultiGroupMixin\<close> (\<open>MultiGroup\<close>)
  and \<^verbatim>\<open>ResourceMixin\<close> (\<open>Resource\<close>, a pointer: \<open>None\<close> is nil).
\<close>

record MainUpdater =
  Repo :: string
  MultiGroup :: bool
  Resource :: "Resource option"
  WireResource :: bool
  WireController :: bool
  WireWebhook :: bool
  IsLegacyLayout :: bool

definition GetPath :: "MainUpdater \<Rightarrow> string" where
  "GetPath f =
     (if IsLegacyLayout f then defaultLegacyLayoutMainPath else defaultMainPath)"

definition GetIfExistsAction :: "MainUpdater \<Rightarrow> IfExistsAction" where
  "GetIfExistsAction f = OverwriteFile"

definition importMarker :: string where
  "importMarker = ''imports''"

definition addSchemeMarker :: string where
  "addSchemeMarker = ''scheme''"

definition setupMarker :: string where
  "setupMarker = ''builder''"


definition apiImportCodeFragment :: string where
  \<open>apiImportCodeFragment = ''%s "%s"
''\<close>

definition controllerImportCodeFragment :: string where
  \<open>controllerImportCodeFragment = ''"%s/internal/controller"
''\<close>

definition multiGroupControllerImportCodeFragment :: string where
  \<open>multiGroupControllerImportCodeFragment = ''%scontroller "%s/internal/controller/%s"
''\<close>

definition addschemeCodeFragment :: string where
  \<open>addschemeCodeFragment = ''utilruntime.Must(%s.AddToScheme(scheme))
''\<close>

definition reconcilerSetupCodeFragment :: string where
  \<open>reconcilerSetupCodeFragment = ''if err = (&controller.%sReconciler{
		MaxConcurrentReconciles: concurrent,
		RateLimiter: utilcontroller.GetRateLimiter(rateLimiterOptions),
	}).SetupWithManager(mgr); err != nil {
		setupLog.Error(err, "unable to create controller", "controller", "%s")
		os.Exit(1)
	}
''\<close>

definition multiGroupReconcilerSetupCodeFragment :: string where
  \<open>multiGroupReconcilerSetupCodeFragment = ''if err = (&%scontroller.%sReconciler{
		MaxConcurrentReconciles: concurrent,
		RateLimiter: utilcontroller.GetRateLimiter(rateLimiterOptions),
	}).SetupWithManager(mgr); err != nil {
		setupLog.Error(err, "unable to create controller", "controller", "%s")
		os.Exit(1)
	}
''\<close>

definition webhookSetupCodeFragment :: string where
  \<open>webhookSetupCodeFragment = ''if os.Getenv("DISABLE_WEBHOOKS") != "true" {
		if err = (&%s.%s{}).SetupWebhookWithManager(mgr); err != nil {
			setupLog.Error(err, "unable to create webhook", "webhook", "%s")
			os.Exit(1)
		}else{
			setupLog.Info("webhook disable", "webhook", "%s")
		}
	}
''\<close>

text \<open>
  \<^verbatim>\<open>GetCodeFragments\<close>. The Go map from markers to fragment lists is a partial map;
  each \<^verbatim>\<open>append\<close> is written out, in the order of the source.
\<close>

definition GetCodeFragments :: "MainUpdater \<Rightarrow> (Marker \<rightharpoonup> string list)" where
  "GetCodeFragments f =
     (let fragments = Map.empty in
      case Resource f of
        None \<Rightarrow> fragments
      | Some r \<Rightarrow>
         (let
            imports = [];
            imports =
              (if WireResource f
               then imports @ [Sprintf apiImportCodeFragment [ImportAlias r, Resource_Path r]]
               else imports);
            imports =
              (if WireController f then
                 (if \<not> MultiGroup f \<or> Group r = [] then
                    (if IsLegacyLayout f
                     then imports @
                       [Sprintf (ReplaceAll controllerImportCodeFragment
                                   ''internal/controller'' ''controllers'') [Repo f]]
                     else imports @ [Sprintf controllerImportCodeFragment [Repo f]])
                  else
                    (if IsLegacyLayout f
                     then imports @
                       [Sprintf (ReplaceAll multiGroupControllerImportCodeFragment
                                   ''internal/controller'' ''controllers'')
                          [PackageName r, Repo f, Group r]]
                     else imports @
                       [Sprintf multiGroupControllerImportCodeFragment
                          [PackageName r, Repo f, Group r]]))
               else imports);
            addScheme = [];
            addScheme =
              (if WireResource f
               then addScheme @ [Sprintf addschemeCodeFragment [ImportAlias r]]
               else addScheme);
            setup = [];
            setup =
              (if WireController f then
                 (if \<not> MultiGroup f \<or> Group r = []
                  then setup @ [Sprintf reconcilerSetupCodeFragment [Kind r, Kind r]]
                  else setup @
                    [Sprintf multiGroupReconcilerSetupCodeFragment
                       [PackageName r, Kind r, Kind r]])
               else setup);
            setup =
              (if WireWebhook f
               then setup @
                 [Sprintf webhookSetupCodeFragment
                    [ImportAlias r, Kind r, Kind r, Kind r]]
               else setup);
            fragments =
              (if length imports \<noteq> 0
               then fragments(NewMarkerFor (GetPath f) importMarker \<mapsto> imports)
               else fragments);
            fragments =
              (if length addScheme \<noteq> 0
               then fragments(NewMarkerFor (GetPath f) addSchemeMarker \<mapsto> addScheme)
               else fragments);
            fragments =
              (if length setup \<noteq> 0
               then fragments(NewMarkerFor (GetPath f) setupMarker \<mapsto> setup)
               else fragments)
          in fragments))"


section \<open>templates/main.go: the template of the entry point\<close>

definition mainTemplate :: string where
  \<open>mainTemplate = ''{{ .Boilerplate }}

package main

import (
	"flag"
	"os"

	// Import all Kubernetes client auth plugins (e.g. Azure, GCP, OIDC, etc.)
	// to ensure that exec-entrypoint and run can make use of them.
	_ "k8s.io/client-go/plugin/pkg/client/auth"

	"k8s.io/apimachinery/pkg/runtime"
	utilruntime "k8s.io/apimachinery/pkg/util/runtime"
	clientgoscheme "k8s.io/client-go/kubernetes/scheme"
	ctrl "sigs.k8s.io/controller-runtime"
	"sigs.k8s.io/controller-runtime/pkg/log/zap"
	"sigs.k8s.io/controller-runtime/pkg/healthz"
	%s
	utilcontroller "github.com/labring/operator-sdk/controller"
)

var (
	scheme = runtime.NewScheme()
	setupLog = ctrl.Log.WithName("setup")
)

func init() {
	utilruntime.Must(clientgoscheme.AddToScheme(scheme))

	%s
}

func main() {
	var (
		metricsAddr          string
		enableLeaderElection bool
		probeAddr            string
		concurrent           int
		rateLimiterOptions   utilcontroller.RateLimiterOptions
	)
	flag.StringVar(&metricsAddr, "metrics-bind-address", ":8080", "The address the metric endpoint binds to.")
	flag.StringVar(&probeAddr, "health-probe-bind-address", ":8081", "The address the probe endpoint binds to.")
	flag.BoolVar(&enableLeaderElection, "leader-elect", false,
		"Enable leader election for controller manager. " +
		"Enabling this will ensure there is only one active controller manager.")
	flag.IntVar(&concurrent, "concurrent", 5, "The number of concurrent cluster reconciles.")
	rateLimiterOptions.BindFlags(flag.CommandLine)
	opts := zap.Options{
		Development: true,
	}
	opts.BindFlags(flag.CommandLine)
	flag.Parse()

	ctrl.SetLogger(zap.New(zap.UseFlagOptions(&opts)))

	mgr, err := ctrl.NewManager(ctrl.GetConfigOrDie(), ctrl.Options{
		Scheme:                 scheme,
		MetricsBindAddress:     metricsAddr,
		Port:                   9443,
		HealthProbeBindAddress: probeAddr,
		LeaderElection:         enableLeaderElection,
		LeaderElectionID:       "{{ hashFNV .Repo }}.{{ .Domain }}",
		// LeaderElectionReleaseOnCancel defines if the leader should step down voluntarily
		// when the Manager ends. This requires the binary to immediately end when the
		// Manager is stopped, otherwise, this setting is unsafe. Setting this significantly
		// speeds up voluntary leader transitions as the new leader don't have to wait
		// LeaseDuration time first.
		//
		// In the default scaffold provided, the program ends immediately after 
		// the manager stops, so would be fine to enable this option. However, 
		// if you are doing or is intended to do any operation such as perform cleanups 
		// after the manager stops then its usage might be unsafe.
		// LeaderElectionReleaseOnCancel: true,
	})
	if err != nil {
		setupLog.Error(err, "unable to start manager")
		os.Exit(1)
	}
	
	%s
	
	if err := mgr.AddHealthzCheck("healthz", healthz.Ping); err != nil {
		setupLog.Error(err, "unable to set up health check")
		os.Exit(1)
	}
	if err := mgr.AddReadyzCheck("readyz", healthz.Ping); err != nil {
		setupLog.Error(err, "unable to set up ready check")
		os.Exit(1)
	}

	setupLog.Info("starting manager")
	if err := mgr.Start(ctrl.SetupSignalHandler()); err != nil {
		setupLog.Error(err, "problem running manager")
		os.Exit(1)
	}
}
''\<close>



section \<open>The template of the API types\<close>

definition typesTemplate :: string where
  \<open>typesTemplate = ''{{ .Boilerplate }}

package {{ .Resource.Version }}

import (
	metav1 "k8s.io/apimachinery/pkg/apis/meta/v1"
)

// EDIT THIS FILE!  THIS IS SCAFFOLDING FOR YOU TO OWN!
// NOTE: json tags are required.  Any new fields you add must have json tags for the fields to be serialized.

// {{ .Resource.Kind }}Spec defines the desired state of {{ .Resource.Kind }}
type {{ .Resource.Kind }}Spec struct {
	// INSERT ADDITIONAL SPEC FIELDS - desired state of cluster
	// Important: Run "make" to regenerate code after modifying this file

	// Foo is an example field of {{ .Resource.Kind }}. Edit {{ lower .Resource.Kind }}_types.go to remove/update
	Foo string `json:"foo,omitempty"`
}

type {{ .Resource.Kind }}Phase string

// These are the valid phases of node.
const (
	{{ .Resource.Kind }}Pending {{ .Resource.Kind }}Phase = "Pending"
	{{ .Resource.Kind }}Unknown {{ .Resource.Kind }}Phase = "Unknown"
	{{ .Resource.Kind }}Active  {{ .Resource.Kind }}Phase = "Active"
)

// {{ .Resource.Kind }}Status defines the observed state of {{ .Resource.Kind }}
type {{ .Resource.Kind }}Status struct {
	// Phase represents the current phase of {{ .Resource.Kind }}.
	//+kubebuilder:default:=Unknown
	Phase {{ .Resource.Kind }}Phase `json:"phase,omitempty"`
	// Represents the observations of a {{ .Resource.Kind }}'s current state.
	// {{ .Resource.Kind }}.status.conditions.type are: "Available", "Progressing", and "Degraded"
	// {{ .Resource.Kind }}.status.conditions.status are one of True, False, Unknown.
	// {{ .Resource.Kind }}.status.conditions.reason the value should be a CamelCase string and producers of specific
	// condition types may define expected values and meanings for this field, and whether the values
	// are considered a guaranteed API.
	// {{ .Resource.Kind }}.status.conditions.Message is a human readable message indicating details about the transition.
	// For further information see: https://github.com/kubernetes/community/blob/master/contributors/devel/sig-architecture/api-conventions.md#typical-status-properties

	Conditions []metav1.Condition `json:"conditions,omitempty" patchStrategy:"merge" patchMergeKey:"type" protobuf:"bytes,1,rep,name=conditions"`
}

//+kubebuilder:object:root=true
//+kubebuilder:subresource:status
{{- if and (not .Resource.API.Namespaced) (not .Resource.IsRegularPlural) }}
//+kubebuilder:resource:path={{ .Resource.Plural }},scope=Cluster
{{- else if not .Resource.API.Namespaced }}
//+kubebuilder:resource:scope=Cluster
{{- else if not .Resource.IsRegularPlural }}
//+kubebuilder:resource:path={{ .Resource.Plural }}
{{- end }}

// {{ .Resource.Kind }} is the Schema for the {{ .Resource.Plural }} API
type {{ .Resource.Kind }} struct {
	metav1.TypeMeta   `json:",inline"`
	metav1.ObjectMeta `json:"metadata,omitempty"`

	Spec   {{ .Resource.Kind }}Spec   `json:"spec,omitempty"`
	Status {{ .Resource.Kind }}Status `json:"status,omitempty"`
}

//+kubebuilder:object:root=true

// {{ .Resource.Kind }}List contains a list of {{ .Resource.Kind }}
type {{ .Resource.Kind }}List struct {
	metav1.TypeMeta `json:",inline"`
	metav1.ListMeta `json:"metadata,omitempty"`
	Items           []{{ .Resource.Kind }} `json:"items"`
}

func init() {
	SchemeBuilder.Register(&{{ .Resource.Kind }}{}, &{{ .Resource.Kind }}List{})
}
''\<close>

text \<open>
  \<^verbatim>\<open>Types\<close> embeds \<^verbatim>\<open>TemplateMixin\<close>, \<^verbatim>\<open>MultiGroupMixin\<close>, \<^verbatim>\<open>BoilerplateMixin\<close> and
  \<^verbatim>\<open>ResourceMixin\<close>.
\<close>

record Types = TemplateMixin +
  Types_MultiGroup :: bool
  Types_Boilerplate :: string
  Types_Resource :: "Resource option"
  Types_Force :: bool

text \<open>
  Modelled from the spec: \<^verbatim>\<open>Resource.Replacer\<close> and the \<^verbatim>\<open>strings.Replacer\<close> it returns
  are library code. The replacer substitutes the placeholders for group, version
  and kind by the fields of the descriptor, the kind in lower case; \<open>ToLower\<close> is
  \<^verbatim>\<open>strings.ToLower\<close>, taken as argument. \<open>Replace\<close> scans the text from left to
  right and, where an old string starts, writes its new string and goes on after
  the match, the pairs being tried in their order; an empty old string matches
  nowhere (the replacer of a resource has none).
\<close>

definition Replacer :: "(string \<Rightarrow> string) \<Rightarrow> Resource \<Rightarrow> (string \<times> string) list" where
  "Replacer ToLower r =
     [(''%[group]'', Group r),
      (''%[version]'', Version r),
      (''%[kind]'', ToLower (Kind r))]"

fun lookup_old :: "(string \<times> string) list \<Rightarrow> string \<Rightarrow> (string \<times> string) option" where
  "lookup_old [] s = None"
| "lookup_old ((old, new) # ps) s =
     (if old \<noteq> [] \<and> take (length old) s = old then Some (old, new)
      else lookup_old ps s)"

function Replace :: "(string \<times> string) list \<Rightarrow> string \<Rightarrow> string" where
  "Replace ps [] = []"
| "Replace ps (c # s) =
     (case lookup_old ps (c # s) of
        None \<Rightarrow> c # Replace ps s
      | Some (old, new) \<Rightarrow> new @ Replace ps (drop (length old - 1) s))"
  by pat_completeness auto
termination
  by (relation "measure (\<lambda>(ps, s). length s)") auto

text \<open>A nil pointer dereference ends the call in a panic.\<close>

datatype panic = NilPointerDereference

text \<open>
  \<^verbatim>\<open>Types.SetTemplateDefaults\<close>: a panic when \<^verbatim>\<open>Resource\<close> is nil (it is read for its
  group or for its replacer on every path), otherwise the receiver after the call,
  the text printed to standard output and the error returned (always nil).
\<close>

definition Types_SetTemplateDefaults ::
  "(string \<Rightarrow> string) \<Rightarrow> 'a Types_scheme
     \<Rightarrow> panic + ('a Types_scheme \<times> string \<times> error option)" where
  "Types_SetTemplateDefaults ToLower f =
     (case Types_Resource f of
        None \<Rightarrow> Inl NilPointerDereference
      | Some r \<Rightarrow>
         (let
            f = (if Path f = [] then
                   (if Types_MultiGroup f \<and> Group r \<noteq> []
                    then f\<lparr>Path := filepath_Join
                                 [''api'', ''%[group]'', ''%[version]'', ''%[kind]_types.go'']\<rparr>
                    else f\<lparr>Path := filepath_Join
                                 [''api'', ''%[version]'', ''%[kind]_types.go'']\<rparr>)
                 else f);
            f = f\<lparr>Path := Replace (Replacer ToLower r) (Path f)\<rparr>;
            out = Println (Path f);
            f = f\<lparr>TemplateBody := typesTemplate\<rparr>;
            f = (if Types_Force f
                 then f\<lparr>IfExistsAction := OverwriteFile\<rparr>
                 else f\<lparr>IfExistsAction := Error\<rparr>)
          in Inr (f, out, None)))"

section \<open>The template of the chart's ignore file\<close>

definition helmIgnoreTemplate :: string where
  \<open>helmIgnoreTemplate = ''# Patterns to ignore when building packages.
# This supports shell glob matching, relative path matching, and
# negation (prefixed with !). Only one pattern per line.
.DS_Store
# Common VCS dirs
.git/
.gitignore
.bzr/
.bzrignore
.hg/
.hgignore
.svn/
# Common backup files
*.swp
*.bak
*.tmp
*.orig
*~
# Various IDEs
.project
.idea/
*.tmproj
.vscode/

''\<close>

text \<open>\<^verbatim>\<open>HelmIgnore\<close> embeds \<^verbatim>\<open>TemplateMixin\<close> and \<^verbatim>\<open>ProjectNameMixin\<close>.\<close>

record HelmIgnore = TemplateMixin +
  ProjectName :: string
  HelmIgnore_Force :: bool

definition HelmIgnore_SetTemplateDefaults ::
  "'a HelmIgnore_scheme \<Rightarrow> 'a HelmIgnore_scheme \<times> error option" where
  "HelmIgnore_SetTemplateDefaults f =
     (let
        f = (if Path f = []
             then f\<lparr>Path := filepath_Join [''config'', ''charts'', ProjectName f, ''.helmignore'']\<rparr>
             else f);
        f = f\<lparr>TemplateBody := helmIgnoreTemplate\<rparr>;
        f = (if HelmIgnore_Force f
             then f\<lparr>IfExistsAction := OverwriteFile\<rparr>
             else f\<lparr>IfExistsAction := SkipFile\<rparr>)
      in (f, None))"

section \<open>The scaffolder of the webhook manifests\<close>


text \<open>
  \<^verbatim>\<open>webhookScaffolder\<close>. \<^verbatim>\<open>config\<close> and \<^verbatim>\<open>fs\<close> are interfaces to mutable state: the
  project configuration and the file system, here the states themselves.
\<close>

record ('c, 'fs) webhookScaffolder =
  config :: 'c
  resource :: Resource
  fs :: 'fs
  force :: bool


section \<open>Sample inputs\<close>

text \<open>
  The inputs at which the theorems below are instantiated: a resource of group
  \<^verbatim>\<open>apps\<close>, version \<^verbatim>\<open>v1\<close> and kind \<^verbatim>\<open>Deployment\<close> in the module
  \<^verbatim>\<open>example.com/proj\<close>, and receivers with every flag off and every other field at
  its zero value (\<^verbatim>\<open>SkipFile\<close> is the zero value of \<^verbatim>\<open>IfExistsAction\<close>).
\<close>

abbreviation sample_resource :: Resource where
  "sample_resource \<equiv>
     \<lparr>Group = ''apps'', Domain = ''example.com'', Version = ''v1'', Kind = ''Deployment'',
      Plural = ''deployments'', Resource_Path = ''example.com/proj/api/v1'',
      ImportAlias = ''appsv1'', PackageName = ''apps''\<rparr>"

abbreviation sample_updater :: MainUpdater where
  "sample_updater \<equiv>
     \<lparr>Repo = ''example.com/proj'', MultiGroup = False, Resource = Some sample_resource,
      WireResource = False, WireController = False, WireWebhook = False,
      IsLegacyLayout = False\<rparr>"


abbreviation sample_types :: Types where
  "sample_types \<equiv>
     \<lparr>Path = [], IfExistsAction = SkipFile, TemplateBody = [], Types_MultiGroup = False,
      Types_Boilerplate = [], Types_Resource = Some sample_resource, Types_Force = False\<rparr>"

abbreviation sample_ignore :: HelmIgnore where
  "sample_ignore \<equiv>
     \<lparr>Path = [], IfExistsAction = SkipFile, TemplateBody = [], ProjectName = ''proj'',
      HelmIgnore_Force = False\<rparr>"







abbreviation sample_ToLower :: "string \<Rightarrow> string" where
  "sample_ToLower \<equiv> \<lambda>s. if s = ''Deployment'' then ''deployment'' else s"

section \<open>Evaluation of the formats\<close>

lemma fmt_extra_Nil [simp]: "fmt_extra [] = []"
  by (simp add: fmt_extra_def)

lemma doPrintf_weak_cong:
  "vs = vs' \<Longrightarrow> doPrintf vs fmt args = doPrintf vs' fmt args"
  by simp


lemma fmt_verbs_in_weak_cong:
  "vs = vs' \<Longrightarrow> fmt_verbs_in vs fmt = fmt_verbs_in vs' fmt"
  by simp

lemma Sprintf_apiImport:
  \<open>Sprintf apiImportCodeFragment [a, p] =
     a @ '' "'' @ p @ ''"
''\<close>
  by (simp add: Sprintf_def apiImportCodeFragment_def cong: doPrintf_weak_cong)

lemma Sprintf_controllerImport:
  \<open>Sprintf controllerImportCodeFragment [r] =
     ''"'' @ r @ ''/internal/controller"
''\<close>
  by (simp add: Sprintf_def controllerImportCodeFragment_def cong: doPrintf_weak_cong)

lemma Sprintf_controllerImport_legacy:
  \<open>Sprintf (ReplaceAll controllerImportCodeFragment ''internal/controller'' ''controllers'') [r] =
     ''"'' @ r @ ''/controllers"
''\<close>
  by (simp add: Sprintf_def controllerImportCodeFragment_def cong: doPrintf_weak_cong)

lemma Sprintf_multiGroupControllerImport:
  \<open>Sprintf multiGroupControllerImportCodeFragment [p, r, g] =
     p @ ''controller "'' @ r @ ''/internal/controller/'' @ g @ ''"
''\<close>
  by (simp add: Sprintf_def multiGroupControllerImportCodeFragment_def cong: doPrintf_weak_cong)

lemma Sprintf_multiGroupControllerImport_legacy:
  \<open>Sprintf (ReplaceAll multiGroupControllerImportCodeFragment ''internal/controller'' ''controllers'') [p, r, g] =
     p @ ''controller "'' @ r @ ''/controllers/'' @ g @ ''"
''\<close>
  by (simp add: Sprintf_def multiGroupControllerImportCodeFragment_def cong: doPrintf_weak_cong)

lemma Sprintf_addscheme:
  \<open>Sprintf addschemeCodeFragment [a] =
     ''utilruntime.Must('' @ a @ ''.AddToScheme(scheme))
''\<close>
  by (simp add: Sprintf_def addschemeCodeFragment_def cong: doPrintf_weak_cong)

lemma Sprintf_reconcilerSetup:
  \<open>Sprintf reconcilerSetupCodeFragment [k, k] =
     ''if err = (&controller.'' @ k @ ''Reconciler{
		MaxConcurrentReconciles: concurrent,
		RateLimiter: utilcontroller.GetRateLimiter(rateLimiterOptions),
	}).SetupWithManager(mgr); err != nil {
		setupLog.Error(err, "unable to create controller", "controller", "'' @ k @ ''")
		os.Exit(1)
	}
''\<close>
  by (simp add: Sprintf_def reconcilerSetupCodeFragment_def cong: doPrintf_weak_cong)

lemma Sprintf_multiGroupReconcilerSetup:
  \<open>Sprintf multiGroupReconcilerSetupCodeFragment [p, k, k] =
     ''if err = (&'' @ p @ ''controller.'' @ k @ ''Reconciler{
		MaxConcurrentReconciles: concurrent,
		RateLimiter: utilcontroller.GetRateLimiter(rateLimiterOptions),
	}).SetupWithManager(mgr); err != nil {
		setupLog.Error(err, "unable to create controller", "controller", "'' @ k @ ''")
		os.Exit(1)
	}
''\<close>
  by (simp add: Sprintf_def multiGroupReconcilerSetupCodeFragment_def cong: doPrintf_weak_cong)

lemma Sprintf_webhookSetup:
  \<open>Sprintf webhookSetupCodeFragment [a, k, k, k] =
     ''if os.Getenv("DISABLE_WEBHOOKS") != "true" {
		if err = (&'' @ a @ ''.'' @ k @ ''{}).SetupWebhookWithManager(mgr); err != nil {
			setupLog.Error(err, "unable to create webhook", "webhook", "'' @ k @ ''")
			os.Exit(1)
		}else{
			setupLog.Info("webhook disable", "webhook", "'' @ k @ ''")
		}
	}
''\<close>
  by (simp add: Sprintf_def webhookSetupCodeFragment_def cong: doPrintf_weak_cong)

lemma formats_modelled:
  "fmt_verbs_in ''sv'' apiImportCodeFragment"
  "fmt_verbs_in ''sv'' controllerImportCodeFragment"
  "fmt_verbs_in ''sv'' (ReplaceAll controllerImportCodeFragment ''internal/controller'' ''controllers'')"
  "fmt_verbs_in ''sv'' multiGroupControllerImportCodeFragment"
  "fmt_verbs_in ''sv''
     (ReplaceAll multiGroupControllerImportCodeFragment ''internal/controller'' ''controllers'')"
  "fmt_verbs_in ''sv'' addschemeCodeFragment"
  "fmt_verbs_in ''sv'' reconcilerSetupCodeFragment"
  "fmt_verbs_in ''sv'' multiGroupReconcilerSetupCodeFragment"
  "fmt_verbs_in ''sv'' webhookSetupCodeFragment"
  "fmt_verbs_in ''svw'' ''error updating resource: %w''"
  "fmt_verbs_in ''svw'' ''error scaffolding helm webhook manifests: %v''"
  by (simp_all add: apiImportCodeFragment_def controllerImportCodeFragment_def
      multiGroupControllerImportCodeFragment_def addschemeCodeFragment_def
      reconcilerSetupCodeFragment_def multiGroupReconcilerSetupCodeFragment_def
      webhookSetupCodeFragment_def)

lemma mainTemplate_modelled: "fmt_verbs_in ''sv'' mainTemplate"
  unfolding mainTemplate_def by (simp cong: fmt_verbs_in_weak_cong)


section \<open>The fragments of each marker\<close>

lemma marker_names_distinct:
  "importMarker \<noteq> addSchemeMarker" "importMarker \<noteq> setupMarker"
  "addSchemeMarker \<noteq> setupMarker"
  by (simp_all add: importMarker_def addSchemeMarker_def setupMarker_def)

lemma GetCodeFragments_nil:
  "Resource f = None \<Longrightarrow> GetCodeFragments f = Map.empty"
  by (simp add: GetCodeFragments_def)

lemma GetCodeFragments_imports:
  "Resource f = Some r \<Longrightarrow>
   GetCodeFragments f (NewMarkerFor p importMarker) =
     (let imports =
        (if WireResource f
         then [Sprintf apiImportCodeFragment [ImportAlias r, Resource_Path r]] else []) @
        (if WireController f then
           [if \<not> MultiGroup f \<or> Group r = [] then
              (if IsLegacyLayout f
               then Sprintf (ReplaceAll controllerImportCodeFragment
                               ''internal/controller'' ''controllers'') [Repo f]
               else Sprintf controllerImportCodeFragment [Repo f])
            else
              (if IsLegacyLayout f
               then Sprintf (ReplaceAll multiGroupControllerImportCodeFragment
                               ''internal/controller'' ''controllers'')
                      [PackageName r, Repo f, Group r]
               else Sprintf multiGroupControllerImportCodeFragment
                      [PackageName r, Repo f, Group r])]
         else [])
      in if imports \<noteq> [] \<and> p = GetPath f then Some imports else None)"
  using marker_names_distinct by (simp add: GetCodeFragments_def Let_def)

lemma GetCodeFragments_scheme:
  "Resource f = Some r \<Longrightarrow>
   GetCodeFragments f (NewMarkerFor p addSchemeMarker) =
     (if WireResource f \<and> p = GetPath f
      then Some [Sprintf addschemeCodeFragment [ImportAlias r]] else None)"
  using marker_names_distinct by (simp add: GetCodeFragments_def Let_def)

lemma GetCodeFragments_setup:
  "Resource f = Some r \<Longrightarrow>
   GetCodeFragments f (NewMarkerFor p setupMarker) =
     (let setup =
        (if WireController f then
           [if \<not> MultiGroup f \<or> Group r = []
            then Sprintf reconcilerSetupCodeFragment [Kind r, Kind r]
            else Sprintf multiGroupReconcilerSetupCodeFragment
                   [PackageName r, Kind r, Kind r]]
         else []) @
        (if WireWebhook f
         then [Sprintf webhookSetupCodeFragment [ImportAlias r, Kind r, Kind r, Kind r]]
         else [])
      in if setup \<noteq> [] \<and> p = GetPath f then Some setup else None)"
  using marker_names_distinct by (simp add: GetCodeFragments_def Let_def)

section \<open>Paths, placeholders and errors\<close>


lemma filepath_Join_types:
  "filepath_Join [''api'', ''%[group]'', ''%[version]'', ''%[kind]_types.go'']
     = ''api/%[group]/%[version]/%[kind]_types.go''"
  "filepath_Join [''api'', ''%[version]'', ''%[kind]_types.go'']
     = ''api/%[version]/%[kind]_types.go''"
  by (simp_all add: filepath_Join_def filepath_Clean_def)

lemma Replace_types:
  "Replace (Replacer ToLower r) ''api/%[group]/%[version]/%[kind]_types.go''
     = ''api/'' @ Group r @ ''/'' @ Version r @ ''/'' @ ToLower (Kind r) @ ''_types.go''"
  "Replace (Replacer ToLower r) ''api/%[version]/%[kind]_types.go''
     = ''api/'' @ Version r @ ''/'' @ ToLower (Kind r) @ ''_types.go''"
  by (simp_all add: Replacer_def)



section \<open>Properties\<close>

text \<open>
  C1. With a resource and \<^verbatim>\<open>WireController\<close> set, the fragments of the imports marker
  end with the controller import in the variant of the layout and the grouping:
  \<^verbatim>\<open>"<Repo>/internal/controller"\<close> for a single group (or an empty group) in the
  nested layout, \<^verbatim>\<open><PackageName>controller "<Repo>/internal/controller/<Group>"\<close> for
  several groups, and \<^verbatim>\<open>controllers\<close> in place of \<^verbatim>\<open>internal/controller\<close> in the legacy
  layout. The import of the API package precedes it when \<^verbatim>\<open>WireResource\<close> is set.
\<close>

theorem controller_import_variants:
  assumes "Resource f = Some r" and "WireController f"
  shows \<open>GetCodeFragments f (NewMarkerFor (GetPath f) importMarker) =
     Some ((if WireResource f
            then [ImportAlias r @ '' "'' @ Resource_Path r @ ''"\<newline>''] else []) @
       [if \<not> MultiGroup f \<or> Group r = [] then
          (if IsLegacyLayout f
           then ''"'' @ Repo f @ ''/controllers"\<newline>''
           else ''"'' @ Repo f @ ''/internal/controller"\<newline>'')
        else
          (if IsLegacyLayout f
           then PackageName r @ ''controller "'' @ Repo f @ ''/controllers/'' @ Group r
                  @ ''"\<newline>''
           else PackageName r @ ''controller "'' @ Repo f @ ''/internal/controller/''
                  @ Group r @ ''"\<newline>'')])\<close>
  using assms
  by (simp add: GetCodeFragments_imports Sprintf_apiImport Sprintf_controllerImport
      Sprintf_controllerImport_legacy Sprintf_multiGroupControllerImport
      Sprintf_multiGroupControllerImport_legacy)

theorem controller_import_variants_witness:
  \<open>GetCodeFragments (sample_updater\<lparr>WireController := True\<rparr>)
      (NewMarkerFor ''cmd/main.go'' ''imports'') =
     Some [''"example.com/proj/internal/controller"\<newline>'']
   \<and> GetCodeFragments (sample_updater\<lparr>MultiGroup := True, WireController := True\<rparr>)
      (NewMarkerFor ''cmd/main.go'' ''imports'') =
     Some [''appscontroller "example.com/proj/internal/controller/apps"\<newline>'']
   \<and> GetCodeFragments (sample_updater\<lparr>WireController := True, IsLegacyLayout := True\<rparr>)
      (NewMarkerFor ''main.go'' ''imports'') =
     Some [''"example.com/proj/controllers"\<newline>'']
   \<and> GetCodeFragments
      (sample_updater\<lparr>MultiGroup := True, WireResource := True, WireController := True,
         IsLegacyLayout := True\<rparr>)
      (NewMarkerFor ''main.go'' ''imports'') =
     Some [''appsv1 "example.com/proj/api/v1"\<newline>'',
           ''appscontroller "example.com/proj/controllers/apps"\<newline>'']\<close>
  using
    controller_import_variants [of "sample_updater\<lparr>WireController := True\<rparr>" sample_resource]
    controller_import_variants [of "sample_updater\<lparr>MultiGroup := True, WireController := True\<rparr>" sample_resource]
    controller_import_variants [of "sample_updater\<lparr>WireController := True, IsLegacyLayout := True\<rparr>" sample_resource]
    controller_import_variants [of "sample_updater\<lparr>MultiGroup := True, WireResource := True, WireController := True,
           IsLegacyLayout := True\<rparr>" sample_resource]
  by (simp add: GetPath_def defaultMainPath_def defaultLegacyLayoutMainPath_def importMarker_def)

text \<open>
  C2. With a resource and both \<^verbatim>\<open>WireController\<close> and \<^verbatim>\<open>WireWebhook\<close> set, the
  fragments of the builder marker are exactly two, in the order of their
  registration: the setup of the reconciler, then the setup of the webhook.
\<close>

theorem setup_fragments_in_registration_order:
  assumes "Resource f = Some r" and "WireController f" and "WireWebhook f"
  shows "GetCodeFragments f (NewMarkerFor (GetPath f) setupMarker) =
     Some [if \<not> MultiGroup f \<or> Group r = []
           then Sprintf reconcilerSetupCodeFragment [Kind r, Kind r]
           else Sprintf multiGroupReconcilerSetupCodeFragment [PackageName r, Kind r, Kind r],
           Sprintf webhookSetupCodeFragment [ImportAlias r, Kind r, Kind r, Kind r]]"
  using assms by (simp add: GetCodeFragments_setup)

theorem setup_fragments_in_registration_order_witness:
  "GetCodeFragments (sample_updater\<lparr>WireResource := True, WireController := True, WireWebhook := True\<rparr>)
      (NewMarkerFor ''cmd/main.go'' ''builder'') =
     Some [Sprintf reconcilerSetupCodeFragment [''Deployment'', ''Deployment''],
           Sprintf webhookSetupCodeFragment
             [''appsv1'', ''Deployment'', ''Deployment'', ''Deployment'']]"
  using setup_fragments_in_registration_order
    [of "sample_updater\<lparr>WireResource := True, WireController := True, WireWebhook := True\<rparr>" sample_resource]
  by (simp add: GetPath_def defaultMainPath_def setupMarker_def)

text \<open>
  C3. With a resource, \<^verbatim>\<open>WireController\<close> set and \<^verbatim>\<open>WireWebhook\<close> not set, the
  fragments of the builder marker are the setup of the reconciler alone; no setup
  of a webhook, of whatever import alias and kind, is among them.
\<close>

theorem controller_setup_without_webhook:
  assumes "Resource f = Some r" and "WireController f" and "\<not> WireWebhook f"
  shows "GetCodeFragments f (NewMarkerFor (GetPath f) setupMarker) =
     Some [if \<not> MultiGroup f \<or> Group r = []
           then Sprintf reconcilerSetupCodeFragment [Kind r, Kind r]
           else Sprintf multiGroupReconcilerSetupCodeFragment [PackageName r, Kind r, Kind r]]
   \<and> Sprintf webhookSetupCodeFragment [a, k, k, k]
       \<notin> set (the (GetCodeFragments f (NewMarkerFor (GetPath f) setupMarker)))"
  using assms
  by (simp add: GetCodeFragments_setup Sprintf_reconcilerSetup
      Sprintf_multiGroupReconcilerSetup Sprintf_webhookSetup)

theorem controller_setup_without_webhook_witness:
  "GetCodeFragments (sample_updater\<lparr>MultiGroup := True, WireResource := True, WireController := True\<rparr>)
      (NewMarkerFor ''cmd/main.go'' ''builder'') =
     Some [Sprintf multiGroupReconcilerSetupCodeFragment
             [''apps'', ''Deployment'', ''Deployment'']]
   \<and> Sprintf webhookSetupCodeFragment
         [''appsv1'', ''Deployment'', ''Deployment'', ''Deployment'']
       \<notin> set (the (GetCodeFragments
             (sample_updater\<lparr>MultiGroup := True, WireResource := True, WireController := True\<rparr>)
             (NewMarkerFor ''cmd/main.go'' ''builder'')))"
  using controller_setup_without_webhook
    [of "sample_updater\<lparr>MultiGroup := True, WireResource := True, WireController := True\<rparr>" sample_resource
        "''appsv1''" "''Deployment''"]
  by (simp add: GetPath_def defaultMainPath_def setupMarker_def
      Sprintf_multiGroupReconcilerSetup Sprintf_webhookSetup)

text \<open>
  C4. A marker whose concern is switched off has no entry in the map of fragments:
  none at all when \<^verbatim>\<open>Resource\<close> is nil, none for the imports marker when
  \<^verbatim>\<open>WireResource\<close> and \<^verbatim>\<open>WireController\<close> are both false, none for the scheme marker
  when \<^verbatim>\<open>WireResource\<close> is false, none for the builder marker when \<^verbatim>\<open>WireController\<close>
  and \<^verbatim>\<open>WireWebhook\<close> are both false.
\<close>

theorem disabled_marker_has_no_entry:
  "(Resource f = None \<longrightarrow> GetCodeFragments f m = None)
   \<and> (\<not> WireResource f \<and> \<not> WireController f \<longrightarrow>
        GetCodeFragments f (NewMarkerFor p importMarker) = None)
   \<and> (\<not> WireResource f \<longrightarrow> GetCodeFragments f (NewMarkerFor p addSchemeMarker) = None)
   \<and> (\<not> WireController f \<and> \<not> WireWebhook f \<longrightarrow>
        GetCodeFragments f (NewMarkerFor p setupMarker) = None)"
proof (cases "Resource f")
  case None
  then show ?thesis by (simp add: GetCodeFragments_nil)
next
  case (Some r)
  then show ?thesis
    by (simp add: GetCodeFragments_imports GetCodeFragments_scheme GetCodeFragments_setup)
qed

theorem disabled_marker_has_no_entry_witness:
  "GetCodeFragments
      (sample_updater\<lparr>Resource := None, WireResource := True, WireController := True,
         WireWebhook := True\<rparr>)
      (NewMarkerFor ''cmd/main.go'' ''imports'') = None
   \<and> GetCodeFragments (sample_updater\<lparr>WireWebhook := True\<rparr>)
      (NewMarkerFor ''cmd/main.go'' ''imports'') = None
   \<and> GetCodeFragments (sample_updater\<lparr>WireController := True, WireWebhook := True\<rparr>)
      (NewMarkerFor ''cmd/main.go'' ''scheme'') = None
   \<and> GetCodeFragments (sample_updater\<lparr>WireResource := True\<rparr>)
      (NewMarkerFor ''cmd/main.go'' ''builder'') = None"
  using
    disabled_marker_has_no_entry
      [of "sample_updater\<lparr>Resource := None, WireResource := True, WireController := True,
             WireWebhook := True\<rparr>"
          "NewMarkerFor ''cmd/main.go'' ''imports''" "''cmd/main.go''"]
    disabled_marker_has_no_entry
      [of "sample_updater\<lparr>WireWebhook := True\<rparr>"
          "NewMarkerFor ''cmd/main.go'' ''imports''" "''cmd/main.go''"]
    disabled_marker_has_no_entry
      [of "sample_updater\<lparr>WireController := True, WireWebhook := True\<rparr>"
          "NewMarkerFor ''cmd/main.go'' ''imports''" "''cmd/main.go''"]
    disabled_marker_has_no_entry
      [of "sample_updater\<lparr>WireResource := True\<rparr>"
          "NewMarkerFor ''cmd/main.go'' ''imports''" "''cmd/main.go''"]
  by (simp add: importMarker_def addSchemeMarker_def setupMarker_def)

text \<open>
  C5. With an empty \<^verbatim>\<open>Path\<close> (and a resource), \<^verbatim>\<open>Types.SetTemplateDefaults\<close> resolves
  the path to \<^verbatim>\<open>api/<version>/<kind>_types.go\<close>, with no segment for the group, when
  \<^verbatim>\<open>MultiGroup\<close> is false or the group is empty, and to
  \<^verbatim>\<open>api/<group>/<version>/<kind>_types.go\<close> otherwise; the kind is in lower case.
\<close>

theorem Types_default_path:
  assumes "Path f = []" and "Types_Resource f = Some r"
  shows "Types_SetTemplateDefaults ToLower f =
     (let p = (if Types_MultiGroup f \<and> Group r \<noteq> []
               then ''api/'' @ Group r @ ''/'' @ Version r @ ''/'' @ ToLower (Kind r)
                      @ ''_types.go''
               else ''api/'' @ Version r @ ''/'' @ ToLower (Kind r) @ ''_types.go'')
      in Inr (f\<lparr>Path := p, TemplateBody := typesTemplate,
                 IfExistsAction := (if Types_Force f then OverwriteFile else Error)\<rparr>,
              Println p, None))"
  using assms
  by (simp add: Types_SetTemplateDefaults_def Let_def filepath_Join_types Replace_types
      del: Replace.simps)

theorem Types_default_path_witness:
  "Types_SetTemplateDefaults sample_ToLower sample_types =
     Inr (sample_types\<lparr>Path := ''api/v1/deployment_types.go'',
            TemplateBody := typesTemplate, IfExistsAction := Error\<rparr>,
          ''api/v1/deployment_types.go\<newline>'', None)
   \<and> Types_SetTemplateDefaults sample_ToLower (sample_types\<lparr>Types_MultiGroup := True\<rparr>) =
     Inr (sample_types\<lparr>Types_MultiGroup := True,
            Path := ''api/apps/v1/deployment_types.go'',
            TemplateBody := typesTemplate, IfExistsAction := Error\<rparr>,
          ''api/apps/v1/deployment_types.go\<newline>'', None)
   \<and> Types_SetTemplateDefaults sample_ToLower
       (sample_types\<lparr>Types_MultiGroup := True,
          Types_Resource := Some (sample_resource\<lparr>Group := []\<rparr>)\<rparr>) =
     Inr (sample_types\<lparr>Types_MultiGroup := True,
            Types_Resource := Some (sample_resource\<lparr>Group := []\<rparr>),
            Path := ''api/v1/deployment_types.go'',
            TemplateBody := typesTemplate, IfExistsAction := Error\<rparr>,
          ''api/v1/deployment_types.go\<newline>'', None)"
  using
    Types_default_path [of sample_types sample_resource sample_ToLower]
    Types_default_path
      [of "sample_types\<lparr>Types_MultiGroup := True\<rparr>" sample_resource sample_ToLower]
    Types_default_path
      [of "sample_types\<lparr>Types_MultiGroup := True,
             Types_Resource := Some (sample_resource\<lparr>Group := []\<rparr>)\<rparr>"
          "sample_resource\<lparr>Group := []\<rparr>" sample_ToLower]
  by (simp add: Println_def)

text \<open>
  C6. \<^verbatim>\<open>SetTemplateDefaults\<close> sets \<^verbatim>\<open>IfExistsAction\<close> to \<^verbatim>\<open>OverwriteFile\<close> when \<^verbatim>\<open>Force\<close>
  is set, for \<^verbatim>\<open>Types\<close> (given its resource) and for \<^verbatim>\<open>HelmIgnore\<close>; without
  \<^verbatim>\<open>Force\<close>, \<^verbatim>\<open>Types\<close> sets it to \<^verbatim>\<open>Error\<close> and \<^verbatim>\<open>HelmIgnore\<close> to \<^verbatim>\<open>SkipFile\<close>.
\<close>

theorem Force_decides_IfExistsAction:
  "(Types_Resource f = Some r \<longrightarrow>
      \<not> isl (Types_SetTemplateDefaults ToLower f) \<and>
      IfExistsAction (fst (projr (Types_SetTemplateDefaults ToLower f))) =
        (if Types_Force f then OverwriteFile else Error))
   \<and> IfExistsAction (fst (HelmIgnore_SetTemplateDefaults h)) =
        (if HelmIgnore_Force h then OverwriteFile else SkipFile)"
  by (simp add: Types_SetTemplateDefaults_def HelmIgnore_SetTemplateDefaults_def Let_def)

theorem Force_decides_IfExistsAction_witness:
  "\<not> isl (Types_SetTemplateDefaults sample_ToLower (sample_types\<lparr>Types_Force := True\<rparr>))
   \<and> IfExistsAction (fst (projr (Types_SetTemplateDefaults sample_ToLower
         (sample_types\<lparr>Types_Force := True\<rparr>)))) = OverwriteFile
   \<and> IfExistsAction (fst (HelmIgnore_SetTemplateDefaults
         (sample_ignore\<lparr>HelmIgnore_Force := True\<rparr>))) = OverwriteFile
   \<and> \<not> isl (Types_SetTemplateDefaults sample_ToLower sample_types)
   \<and> IfExistsAction (fst (projr (Types_SetTemplateDefaults sample_ToLower sample_types)))
       = Error
   \<and> IfExistsAction (fst (HelmIgnore_SetTemplateDefaults sample_ignore)) = SkipFile"
  using
    Force_decides_IfExistsAction
      [of "sample_types\<lparr>Types_Force := True\<rparr>" sample_resource sample_ToLower
          "sample_ignore\<lparr>HelmIgnore_Force := True\<rparr>"]
    Force_decides_IfExistsAction
      [of sample_types sample_resource sample_ToLower sample_ignore]
  by simp

text \<open>
  C7. With a resource and \<^verbatim>\<open>WireWebhook\<close> set, the setup of the webhook is the last
  fragment of the builder marker, and its text is made of the import alias and the
  kind of the resource only: whatever \<^verbatim>\<open>MultiGroup\<close> and \<^verbatim>\<open>IsLegacyLayout\<close> are set
  to, two runs yield the same webhook fragment.
\<close>

theorem webhook_fragment_layout_independent:
  assumes "Resource f = Some r" and "WireWebhook f"
  shows \<open>GetCodeFragments (f\<lparr>MultiGroup := mg, IsLegacyLayout := ll\<rparr>)
       (NewMarkerFor (GetPath (f\<lparr>MultiGroup := mg, IsLegacyLayout := ll\<rparr>)) setupMarker) =
     Some ((if WireController f then
              [if \<not> mg \<or> Group r = []
               then Sprintf reconcilerSetupCodeFragment [Kind r, Kind r]
               else Sprintf multiGroupReconcilerSetupCodeFragment
                      [PackageName r, Kind r, Kind r]]
            else []) @
           [''if os.Getenv("DISABLE_WEBHOOKS") != "true" {
		if err = (&'' @ ImportAlias r @ ''.'' @ Kind r @ ''{}).SetupWebhookWithManager(mgr); err != nil {
			setupLog.Error(err, "unable to create webhook", "webhook", "'' @ Kind r @ ''")
			os.Exit(1)
		}else{
			setupLog.Info("webhook disable", "webhook", "'' @ Kind r @ ''")
		}
	}
''])
   \<and> last (the (GetCodeFragments (f\<lparr>MultiGroup := mg, IsLegacyLayout := ll\<rparr>)
         (NewMarkerFor (GetPath (f\<lparr>MultiGroup := mg, IsLegacyLayout := ll\<rparr>)) setupMarker))) =
     last (the (GetCodeFragments (f\<lparr>MultiGroup := mg', IsLegacyLayout := ll'\<rparr>)
         (NewMarkerFor (GetPath (f\<lparr>MultiGroup := mg', IsLegacyLayout := ll'\<rparr>)) setupMarker)))\<close>
  using assms by (simp add: GetCodeFragments_setup Sprintf_webhookSetup)

theorem webhook_fragment_layout_independent_witness:
  \<open>GetCodeFragments (sample_updater\<lparr>MultiGroup := True, WireWebhook := True, IsLegacyLayout := True\<rparr>)
      (NewMarkerFor ''main.go'' ''builder'') =
     Some [''if os.Getenv("DISABLE_WEBHOOKS") != "true" {
		if err = (&appsv1.Deployment{}).SetupWebhookWithManager(mgr); err != nil {
			setupLog.Error(err, "unable to create webhook", "webhook", "Deployment")
			os.Exit(1)
		}else{
			setupLog.Info("webhook disable", "webhook", "Deployment")
		}
	}
'']
   \<and> last (the (GetCodeFragments (sample_updater\<lparr>MultiGroup := True, WireWebhook := True, IsLegacyLayout := True\<rparr>)
      (NewMarkerFor ''main.go'' ''builder''))) =
     last (the (GetCodeFragments (sample_updater\<lparr>WireWebhook := True\<rparr>)
      (NewMarkerFor ''cmd/main.go'' ''builder'')))\<close>
  using
    webhook_fragment_layout_independent
    [of "sample_updater\<lparr>WireWebhook := True\<rparr>" sample_resource
        True True False False]
    webhook_fragment_layout_independent
    [of "sample_updater\<lparr>WireWebhook := True\<rparr>" sample_resource
        False False True True]
  by (simp add: GetPath_def defaultMainPath_def defaultLegacyLayoutMainPath_def
      setupMarker_def)






text \<open>
  C10. \<^verbatim>\<open>GetIfExistsAction\<close> of a \<^verbatim>\<open>MainUpdater\<close> is \<^verbatim>\<open>OverwriteFile\<close> whatever the
  fields of the receiver are: the target of the injector is always rewritten, never
  skipped and never a conflict.
\<close>

theorem GetIfExistsAction_overwrite:
  "GetIfExistsAction f = OverwriteFile
   \<and> GetIfExistsAction f \<noteq> SkipFile \<and> GetIfExistsAction f \<noteq> Error"
  by (simp add: GetIfExistsAction_def)

end
